theory Spec2Isabelle
  imports Complex_Main "HOL-Library.Char_ord" "HOL-Library.List_Lexorder"
begin

section \<open>JavaScript values used by the guideline catalog\<close>

text \<open>
  The catalog code of \<^verbatim>\<open>src/data/guidelineActions.mjs\<close> compares fields with the
  JavaScript operators \<^verbatim>\<open>===\<close> and \<^verbatim>\<open><\<close>. The model gives every field the values
  its JSDoc type admits: a number is NaN, an infinity or a finite value (finite doubles
  are rationals, and the operators agree with the rational order on them); a level is
  \<^verbatim>\<open>null\<close> or a number; names and arts are strings, compared code unit by code unit
  (the model has the code units below 256). A field that a partial key does not carry
  reads as \<^verbatim>\<open>undefined\<close>.
\<close>

datatype jsnum = NaN | NegInf | Fin rat | PosInf

datatype 'a optional = Undefined | Defined 'a

datatype LevelType = LNull | LNum jsnum

text \<open>An operand that should be an object, and may be \<^verbatim>\<open>undefined\<close> or \<^verbatim>\<open>null\<close>.\<close>

datatype 'a ref = RUndefined | RNull | Obj 'a

text \<open>A comparator returns a number or \<^verbatim>\<open>undefined\<close>: \<open>None\<close> is \<^verbatim>\<open>undefined\<close>.\<close>

type_synonym ComparisonResult = "int option"

subsection \<open>The operators \<^verbatim>\<open><\<close> and \<^verbatim>\<open>===\<close>\<close>

fun num_lt :: "jsnum \<Rightarrow> jsnum \<Rightarrow> bool" where
  "num_lt NaN y = False"
| "num_lt x NaN = False"
| "num_lt NegInf NegInf = False"
| "num_lt NegInf y = True"
| "num_lt (Fin a) NegInf = False"
| "num_lt (Fin a) (Fin b) = (a < b)"
| "num_lt (Fin a) PosInf = True"
| "num_lt PosInf y = False"

fun num_strict_eq :: "jsnum \<Rightarrow> jsnum \<Rightarrow> bool" where
  "num_strict_eq NaN y = False"
| "num_strict_eq x NaN = False"
| "num_strict_eq x y = (x = y)"

text \<open>ToNumber: \<^verbatim>\<open>undefined\<close> is NaN and \<^verbatim>\<open>null\<close> is 0.\<close>

fun level_to_number :: "LevelType optional \<Rightarrow> jsnum" where
  "level_to_number Undefined = NaN"
| "level_to_number (Defined LNull) = Fin 0"
| "level_to_number (Defined (LNum n)) = n"

definition level_lt :: "LevelType optional \<Rightarrow> LevelType optional \<Rightarrow> bool" where
  "level_lt a b = num_lt (level_to_number a) (level_to_number b)"

fun level_strict_eq :: "LevelType optional \<Rightarrow> LevelType optional \<Rightarrow> bool" where
  "level_strict_eq (Defined (LNum x)) (Defined (LNum y)) = num_strict_eq x y"
| "level_strict_eq a b = (a = b)"

text \<open>
  Two strings compare by code units; with an \<^verbatim>\<open>undefined\<close> operand \<^verbatim>\<open><\<close> converts
  both sides to numbers, \<^verbatim>\<open>undefined\<close> becomes NaN, and the comparison is false.
\<close>

fun string_lt :: "string optional \<Rightarrow> string optional \<Rightarrow> bool" where
  "string_lt (Defined a) (Defined b) = (a < b)"
| "string_lt a b = False"

definition string_strict_eq :: "string optional \<Rightarrow> string optional \<Rightarrow> bool" where
  "string_strict_eq a b = (a = b)"

section \<open>The field comparators\<close>

definition compareLevel :: "LevelType optional \<Rightarrow> LevelType optional \<Rightarrow> ComparisonResult" where
  "compareLevel compared comparee =
     (if level_strict_eq compared comparee \<or> level_lt compared comparee then Some 0
      else if compared = Defined LNull then Some (- 1)
      else if comparee = Defined LNull \<or> level_lt comparee compared then Some 1
      else None)"

definition compareName :: "string optional \<Rightarrow> string optional \<Rightarrow> ComparisonResult" where
  "compareName compared comparee =
     (if string_strict_eq compared comparee then Some 0
      else if string_lt compared comparee then Some (- 1)
      else if string_lt comparee compared then Some 1
      else None)"

definition artComparison :: "string optional \<Rightarrow> string optional \<Rightarrow> ComparisonResult" where
  "artComparison compared comparee =
     (if string_lt compared comparee then Some (- 1)
      else if string_lt comparee compared then Some 1
      else if string_strict_eq compared comparee then Some 0
      else None)"

definition compareIgnoreUndefined ::
  "('a optional \<Rightarrow> 'a optional \<Rightarrow> ComparisonResult) \<Rightarrow> 'a optional \<Rightarrow> 'a optional \<Rightarrow> ComparisonResult" where
  "compareIgnoreUndefined compare compared comparee =
     (if compared = Undefined \<or> comparee = Undefined then Some 0 else compare compared comparee)"

section \<open>Guidelines and the key comparators\<close>

text \<open>
  A \<^verbatim>\<open>GuidelineModel\<close> has the five properties below. A partial key is an object of
  the same shape whose missing properties read as \<^verbatim>\<open>undefined\<close>.
\<close>

record guideline =
  name :: "string optional"
  technique :: "string optional"
  form :: "string optional"
  level :: "LevelType optional"
  description :: "string optional"

definition GuidelineModel ::
  "string \<Rightarrow> string \<Rightarrow> string \<Rightarrow> LevelType \<Rightarrow> string optional \<Rightarrow> guideline" where
  "GuidelineModel n t f l d =
     \<lparr>name = Defined n, technique = Defined t, form = Defined f, level = Defined l,
      description = d\<rparr>"

text \<open>The test \<^verbatim>\<open>x == null\<close> holds of \<^verbatim>\<open>null\<close> and of \<^verbatim>\<open>undefined\<close>.\<close>

fun loosely_null :: "'a ref \<Rightarrow> bool" where
  "loosely_null (Obj x) = False"
| "loosely_null r = True"

definition compareGuideline :: "guideline ref \<Rightarrow> guideline ref \<Rightarrow> ComparisonResult" where
  "compareGuideline compared comparee =
     (if loosely_null compared \<or> loosely_null comparee then None
      else
        (case (compared, comparee) of
           (Obj a, Obj b) \<Rightarrow>
             (let result = artComparison (form a) (form b);
                  result = (if result = Some 0 then artComparison (technique a) (technique b)
                            else result);
                  result = (if result = Some 0 then compareLevel (level a) (level b)
                            else result);
                  result = (if result = Some 0 then compareName (name a) (name b) else result)
              in result)
         | _ \<Rightarrow> None))"

definition compareGuidelineKeys :: "guideline ref \<Rightarrow> guideline ref \<Rightarrow> ComparisonResult" where
  "compareGuidelineKeys compared comparee =
     (if loosely_null compared \<or> loosely_null comparee then None
      else
        (case (compared, comparee) of
           (Obj a, Obj b) \<Rightarrow>
             (let result = compareIgnoreUndefined artComparison (form a) (form b);
                  result = (if result = Some 0
                            then compareIgnoreUndefined artComparison (technique a) (technique b)
                            else result);
                  result = (if result = Some 0
                            then compareIgnoreUndefined compareLevel (level a) (level b)
                            else result);
                  result = (if result = Some 0
                            then compareIgnoreUndefined compareName (name a) (name b)
                            else result)
              in result)
         | _ \<Rightarrow> None))"

section \<open>Binary search\<close>

text \<open>
  Positions are JavaScript numbers. The code computes them from integers, but
  \<^verbatim>\<open>Math.floor((start + end) / 2)\<close> is NaN when \<^verbatim>\<open>end\<close> is \<^verbatim>\<open>undefined\<close>, so a
  position is an integer or NaN.
\<close>

datatype index = NaNi | Idx int

fun index_lt :: "index \<Rightarrow> index \<Rightarrow> bool" where
  "index_lt (Idx a) (Idx b) = (a < b)"
| "index_lt a b = False"

fun index_ge :: "index \<Rightarrow> index \<Rightarrow> bool" where
  "index_ge (Idx a) (Idx b) = (b \<le> a)"
| "index_ge a b = False"

fun index_plus :: "index \<Rightarrow> int \<Rightarrow> index" where
  "index_plus (Idx a) n = Idx (a + n)"
| "index_plus NaNi n = NaNi"

fun index_minus :: "int \<Rightarrow> index \<Rightarrow> index" where
  "index_minus n (Idx a) = Idx (n - a)"
| "index_minus n NaNi = NaNi"

text \<open>Reading \<^verbatim>\<open>collection[i]\<close>: outside the array, and at NaN, the value is \<^verbatim>\<open>undefined\<close>.\<close>

fun element :: "'a list \<Rightarrow> index \<Rightarrow> 'a ref" where
  "element collection (Idx i) =
     (if 0 \<le> i \<and> i < int (length collection) then Obj (collection ! nat i) else RUndefined)"
| "element collection NaNi = RUndefined"

text \<open>
  The second range check reads \<^verbatim>\<open>collection.lenght\<close>. An array has no such property:
  the read gives \<^verbatim>\<open>undefined\<close>, NaN as a number.
\<close>

definition lenght :: "'a list \<Rightarrow> index" where
  "lenght collection = NaNi"

datatype error =
    RangeError string
  | TypeError string
  | NotFoundException string
  | ReferenceError string

text \<open>
  The loop of \<^verbatim>\<open>binarySearch\<close>. The probe position \<open>i\<close> is computed once, before the
  loop, and the body never assigns it. A run that does not leave the loop has no result:
  the value \<open>None\<close>. A run that leaves it gives \<open>s\<close> and \<open>cmp\<close>.
\<close>

partial_function (option) search_loop ::
  "('a ref \<Rightarrow> 'a ref \<Rightarrow> ComparisonResult) \<Rightarrow> 'a list \<Rightarrow> 'a ref \<Rightarrow> index \<Rightarrow>
     index \<Rightarrow> index \<Rightarrow> int \<Rightarrow> (error + index \<times> int) option" where
  "search_loop comparator collection seeked i s e cmp =
     (if index_lt s e \<and> cmp = 0 then
        (case comparator seeked (element collection i) of
           None \<Rightarrow> Some (Inl (TypeError ''Incompatible seeked value''))
         | Some c \<Rightarrow>
             if c < 0 then search_loop comparator collection seeked i s i c
             else if c > 0 then search_loop comparator collection seeked i (index_plus i 1) e c
             else search_loop comparator collection seeked i s e c)
      else Some (Inr (s, cmp)))"

text \<open>
  \<^verbatim>\<open>binarySearch(collection, seeked, start, end, comparator)\<close>; \<open>endIdx = None\<close> is the
  call with \<^verbatim>\<open>end\<close> \<^verbatim>\<open>undefined\<close>.
\<close>

definition binarySearch ::
  "'a list \<Rightarrow> 'a ref \<Rightarrow> int \<Rightarrow> int option \<Rightarrow> ('a ref \<Rightarrow> 'a ref \<Rightarrow> ComparisonResult) \<Rightarrow>
     (error + index) option" where
  "binarySearch collection seeked start endIdx comparator =
     (let s = start in
      if s < 0 \<or> s > int (length collection)
      then Some (Inl (RangeError ''Invalid start index of the search window.''))
      else
        let e = (case endIdx of None \<Rightarrow> int (length collection) | Some n \<Rightarrow> n) in
        if e < 0 \<or> index_lt (lenght collection) (Idx e)
        then Some (Inl (RangeError ''Invalid end index of the search window.''))
        else
          let i = (case endIdx of None \<Rightarrow> NaNi | Some n \<Rightarrow> Idx ((start + n) div 2)) in
          case search_loop comparator collection seeked i (Idx s) (Idx e) 0 of
            None \<Rightarrow> None
          | Some (Inl err) \<Rightarrow> Some (Inl err)
          | Some (Inr (s', cmp)) \<Rightarrow> Some (Inr (if cmp = 0 then i else index_minus (- 1) s')))"

section \<open>The in-memory catalog\<close>

text \<open>
  The module keeps the catalog in the variable \<^verbatim>\<open>guidelines\<close>. The operations take
  the array and give the settled promise together with the array afterwards; an
  operation whose search does not return gives \<open>None\<close>.
\<close>

datatype 'a promise = Resolved 'a | Rejected error

definition create_animal :: guideline where
  "create_animal =
     GuidelineModel ''Create an animal'' ''Creo'' ''Animal'' (LNum (Fin 20))
       (Defined ''Create a mundane animal'')"

definition destroy_effect :: guideline where
  "destroy_effect =
     GuidelineModel ''Destroy a specific kind of magical effect.'' ''Perdo'' ''Vim'' LNull
       (Defined ''Destroy a specific kind (such a Hermetic spell of specific Form) of level (level + 2 magnitudes)/2'')"

text \<open>The catalog the module starts with.\<close>

definition guidelines_init :: "guideline list" where
  "guidelines_init = [create_animal, destroy_effect]"

text \<open>
  \<^verbatim>\<open>Array.prototype.splice\<close>: the start is converted to an integer (NaN is 0), counted
  from the end when negative, and clamped to the array.
\<close>

definition splice_start :: "index \<Rightarrow> nat \<Rightarrow> nat" where
  "splice_start start len =
     (case start of
        NaNi \<Rightarrow> 0
      | Idx k \<Rightarrow> if k < 0 then nat (max (int len + k) 0) else nat (min k (int len)))"

text \<open>\<^verbatim>\<open>collection.splice(start, 0, item)\<close>: the array afterwards.\<close>

definition splice_insert :: "index \<Rightarrow> 'a \<Rightarrow> 'a list \<Rightarrow> 'a list" where
  "splice_insert start item collection =
     (let k = splice_start start (length collection)
      in take k collection @ item # drop k collection)"

text \<open>\<^verbatim>\<open>collection.splice(start, 1, item)\<close>: the removed elements and the array afterwards.\<close>

definition splice_replace :: "index \<Rightarrow> 'a \<Rightarrow> 'a list \<Rightarrow> 'a list \<times> 'a list" where
  "splice_replace start item collection =
     (let k = splice_start start (length collection);
          removed = take 1 (drop k collection)
      in (removed, take k collection @ item # drop (k + length removed) collection))"

text \<open>Reading element 0 of an array.\<close>

fun first_element :: "'a list \<Rightarrow> 'a optional" where
  "first_element [] = Undefined"
| "first_element (x # xs) = Defined x"

text \<open>
  The key object \<^verbatim>\<open>{name, level, technique, form}\<close> that \<^verbatim>\<open>addGuideline\<close> resolves
  with: an object without a description.
\<close>

definition guidelineKey :: "guideline \<Rightarrow> guideline" where
  "guidelineKey guideline =
     \<lparr>name = name guideline, technique = technique guideline, form = form guideline,
      level = level guideline, description = Undefined\<rparr>"

definition addGuideline ::
  "guideline \<Rightarrow> guideline list \<Rightarrow> (guideline promise \<times> guideline list) option" where
  "addGuideline guideline guidelines =
     (case binarySearch guidelines (Obj guideline) 0 (Some (int (length guidelines)))
             compareGuidelineKeys of
        None \<Rightarrow> None
      | Some (Inl err) \<Rightarrow> Some (Rejected err, guidelines)
      | Some (Inr idx) \<Rightarrow>
          if index_ge idx (Idx 0)
          then Some (Rejected (RangeError ''The guideline already exists''), guidelines)
          else Some (Resolved (guidelineKey guideline),
                     splice_insert (index_minus (- 1) idx) guideline guidelines))"

text \<open>
  \<^verbatim>\<open>updateGuideline(guidelineKey, guideline)\<close> searches for \<^verbatim>\<open>guideline\<close>, with the
  end of the window \<^verbatim>\<open>undefined\<close>. It resolves with the first removed element.
\<close>

definition updateGuideline ::
  "guideline \<Rightarrow> guideline \<Rightarrow> guideline list \<Rightarrow>
     (guideline optional promise \<times> guideline list) option" where
  "updateGuideline key guideline guidelines =
     (case binarySearch guidelines (Obj guideline) 0 None compareGuidelineKeys of
        None \<Rightarrow> None
      | Some (Inl err) \<Rightarrow> Some (Rejected err, guidelines)
      | Some (Inr idx) \<Rightarrow>
          if index_ge idx (Idx 0)
          then (case splice_replace idx guideline guidelines of
                  (removed, guidelines') \<Rightarrow> Some (Resolved (first_element removed), guidelines'))
          else Some (Rejected (NotFoundException ''The guideline does not exist''), guidelines))"

text \<open>
  A sequence is sorted ascending by a comparator when every element compares less than
  or equal to its successor: the weakest reading of the catalog invariant.
\<close>

fun sorted_by :: "('a ref \<Rightarrow> 'a ref \<Rightarrow> ComparisonResult) \<Rightarrow> 'a list \<Rightarrow> bool" where
  "sorted_by comparator [] = True"
| "sorted_by comparator [x] = True"
| "sorted_by comparator (x # y # zs) =
     ((case comparator (Obj x) (Obj y) of None \<Rightarrow> False | Some c \<Rightarrow> c \<le> 0)
      \<and> sorted_by comparator (y # zs))"

section \<open>The query builder of the database-backed \<^verbatim>\<open>getGuidelines\<close>\<close>

text \<open>
  An object is the list of its own properties in enumeration order. A filter value is
  \<^verbatim>\<open>null\<close> or a literal; an order value is \<^verbatim>\<open>null\<close> or a direction text.
\<close>

type_synonym 'v object = "(string \<times> 'v) list"

datatype FilterValue = FNull | FString string | FNumber jsnum

datatype OrderValue = ONull | ODirection string

definition own_property_names :: "'v object \<Rightarrow> string list" where
  "own_property_names obj = remdups (map fst obj)"

definition property :: "'v object \<Rightarrow> string \<Rightarrow> 'v optional" where
  "property obj key = (case map_of obj key of None \<Rightarrow> Undefined | Some v \<Rightarrow> Defined v)"

text \<open>
  The body of \<^verbatim>\<open>getGuidelines\<close> reads three identifiers that the module neither
  declares nor imports: \<^verbatim>\<open>getOwnPropertyNames\<close>, \<^verbatim>\<open>field\<close> and \<^verbatim>\<open>order\<close>.
  Reading an identifier without a binding throws a ReferenceError. The model takes the
  bindings as a parameter: whether \<^verbatim>\<open>getOwnPropertyNames\<close> resolves (to
  \<^verbatim>\<open>Object.getOwnPropertyNames\<close>), and the values of \<^verbatim>\<open>field\<close> and \<^verbatim>\<open>order\<close> when
  they have one. \<open>module_scope\<close> is the module as it is written.
\<close>

record scope =
  getOwnPropertyNames_bound :: bool
  field_binding :: "string option"
  order_binding :: "OrderValue object ref option"

definition module_scope :: scope where
  "module_scope =
     \<lparr>getOwnPropertyNames_bound = False, field_binding = None, order_binding = None\<rparr>"

text \<open>
  The pattern of \<^verbatim>\<open>validFieldName\<close>,
  \<^verbatim>\<open>/^([a-z](?:\w*[a-z0-9])?)(?:\.([a-z](?:\w*[a-z0-9])?)?)$/\<close>:
  an identifier, a dot, and an identifier or nothing. The dot is not optional.
\<close>

definition is_lower :: "char \<Rightarrow> bool" where
  "is_lower c = (CHR ''a'' \<le> c \<and> c \<le> CHR ''z'')"

definition is_digit :: "char \<Rightarrow> bool" where
  "is_digit c = (CHR ''0'' \<le> c \<and> c \<le> CHR ''9'')"

definition is_word :: "char \<Rightarrow> bool" where
  "is_word c = (is_lower c \<or> (CHR ''A'' \<le> c \<and> c \<le> CHR ''Z'') \<or> is_digit c \<or> c = CHR ''_'')"

definition identifier_pattern :: "string \<Rightarrow> bool" where
  "identifier_pattern s =
     (case s of
        [] \<Rightarrow> False
      | c # cs \<Rightarrow>
          is_lower c \<and>
          (cs = [] \<or> (list_all is_word cs \<and> (is_lower (last cs) \<or> is_digit (last cs)))))"

definition field_pattern :: "string \<Rightarrow> bool" where
  "field_pattern s =
     (identifier_pattern (takeWhile (\<lambda>c. c \<noteq> CHR ''.'') s) \<and>
      (case dropWhile (\<lambda>c. c \<noteq> CHR ''.'') s of
         [] \<Rightarrow> False
       | dot # rest \<Rightarrow> rest = [] \<or> identifier_pattern rest))"

text \<open>\<^verbatim>\<open>validFieldName(fieldName)\<close> tests the identifier \<^verbatim>\<open>field\<close>, not its parameter.\<close>

definition validFieldName :: "scope \<Rightarrow> string \<Rightarrow> error + bool" where
  "validFieldName sc fieldName =
     (case field_binding sc of
        None \<Rightarrow> Inl (ReferenceError ''field is not defined'')
      | Some field \<Rightarrow> Inr (field_pattern field))"

text \<open>
  A where clause is one of the two template texts. What the equality template embeds
  after the dollar sign is the value it reads: a placeholder number, \<^verbatim>\<open>undefined\<close>
  (the read of \<^verbatim>\<open>result[2]\<close>: the builder has no property 2), or a property that
  \<^verbatim>\<open>fieldPlaceholders\<close> inherits from \<^verbatim>\<open>Object.prototype\<close>.
\<close>

datatype placeholder = PlaceholderIndex int | PlaceholderUndefined | PlaceholderInherited string

datatype whereClause = IsNull string | Equals string placeholder

record QueryBuilder =
  whereClauses :: "whereClause list"
  queryValues :: "FilterValue optional list"
  placeholderCount :: int
  fieldPlaceholders :: "(string \<rightharpoonup> int) optional"
  orderClauses :: "string list optional"

definition queryBuilder_init :: QueryBuilder where
  "queryBuilder_init =
     \<lparr>whereClauses = [], queryValues = [], placeholderCount = 0,
      fieldPlaceholders = Undefined, orderClauses = Undefined\<rparr>"

definition object_prototype_properties :: "string list" where
  "object_prototype_properties =
     [''constructor'', ''__defineGetter__'', ''__defineSetter__'', ''hasOwnProperty'',
      ''__lookupGetter__'', ''__lookupSetter__'', ''isPrototypeOf'', ''propertyIsEnumerable'',
      ''toString'', ''valueOf'', ''__proto__'', ''toLocaleString'']"

text \<open>\<^verbatim>\<open>result.fieldPlaceholders && fieldName in result.fieldPlaceholders\<close>\<close>

definition has_placeholder :: "QueryBuilder \<Rightarrow> string \<Rightarrow> bool" where
  "has_placeholder result fieldName =
     (case fieldPlaceholders result of
        Undefined \<Rightarrow> False
      | Defined fp \<Rightarrow>
          (case fp fieldName of
             Some n \<Rightarrow> True
           | None \<Rightarrow> fieldName \<in> set object_prototype_properties))"

definition placeholder_of :: "QueryBuilder \<Rightarrow> string \<Rightarrow> placeholder" where
  "placeholder_of result fieldName =
     (case fieldPlaceholders result of
        Undefined \<Rightarrow> PlaceholderUndefined
      | Defined fp \<Rightarrow>
          (case fp fieldName of
             Some n \<Rightarrow> PlaceholderIndex n
           | None \<Rightarrow> PlaceholderInherited fieldName))"

text \<open>
  The callback of the first \<^verbatim>\<open>reduce\<close>, over the names of the filter. The state is
  the builder and the lines written to the console.
\<close>

definition where_step ::
  "scope \<Rightarrow> FilterValue object \<Rightarrow> QueryBuilder \<times> string list \<Rightarrow> string \<Rightarrow>
     error + QueryBuilder \<times> string list" where
  "where_step sc sqlFilter st fieldName =
     (case st of (result, console) \<Rightarrow>
        (case validFieldName sc fieldName of
           Inl err \<Rightarrow> Inl err
         | Inr True \<Rightarrow>
             if property sqlFilter fieldName = Defined FNull then
               (case field_binding sc of
                  None \<Rightarrow> Inl (ReferenceError ''field is not defined'')
                | Some field \<Rightarrow>
                    Inr (result\<lparr>whereClauses := whereClauses result @ [IsNull field]\<rparr>, console))
             else if has_placeholder result fieldName then
               Inr (result\<lparr>whereClauses :=
                      whereClauses result @ [Equals fieldName (placeholder_of result fieldName)]\<rparr>,
                    console)
             else
               (let result = result\<lparr>placeholderCount := placeholderCount result + 1\<rparr>;
                    result = result\<lparr>whereClauses :=
                      whereClauses result @ [Equals fieldName PlaceholderUndefined]\<rparr>;
                    result = result\<lparr>queryValues :=
                      queryValues result @ [property sqlFilter fieldName]\<rparr>;
                    result = result\<lparr>fieldPlaceholders :=
                      Defined ((case fieldPlaceholders result of
                                  Undefined \<Rightarrow> Map.empty
                                | Defined fp \<Rightarrow> fp)(fieldName \<mapsto> placeholderCount result))\<rparr>
                in Inr (result, console))
         | Inr False \<Rightarrow>
             (case field_binding sc of
                None \<Rightarrow> Inl (ReferenceError ''field is not defined'')
              | Some field \<Rightarrow> Inr (result, console @ [''Ignoring filter field '' @ field]))))"

text \<open>The callback of the second \<^verbatim>\<open>reduce\<close>, over the names of \<^verbatim>\<open>order\<close>.\<close>

definition order_step ::
  "scope \<Rightarrow> OrderValue object \<Rightarrow> QueryBuilder \<times> string list \<Rightarrow> string \<Rightarrow>
     error + QueryBuilder \<times> string list" where
  "order_step sc order st fieldName =
     (case st of (result, console) \<Rightarrow>
        (case validFieldName sc fieldName of
           Inl err \<Rightarrow> Inl err
         | Inr True \<Rightarrow>
             (case property order fieldName of
                Defined (ODirection orderValue) \<Rightarrow>
                  Inr (result\<lparr>orderClauses :=
                         Defined ((case orderClauses result of
                                     Undefined \<Rightarrow> []
                                   | Defined cs \<Rightarrow> cs) @ [fieldName @ '' '' @ orderValue])\<rparr>,
                       console)
              | Defined ONull \<Rightarrow> Inr (result, console)
              | Undefined \<Rightarrow>
                  Inr (result\<lparr>orderClauses :=
                         Defined ((case orderClauses result of
                                     Undefined \<Rightarrow> []
                                   | Defined cs \<Rightarrow> cs) @ [fieldName @ '' undefined''])\<rparr>,
                       console))
         | Inr False \<Rightarrow>
             (case field_binding sc of
                None \<Rightarrow> Inl (ReferenceError ''field is not defined'')
              | Some field \<Rightarrow> Inr (result, console @ [''Ignoring filter field '' @ field]))))"

text \<open>\<^verbatim>\<open>Array.prototype.reduce\<close> with a callback that may throw.\<close>

fun reduce :: "('s \<Rightarrow> 'a \<Rightarrow> error + 's) \<Rightarrow> 'a list \<Rightarrow> 's \<Rightarrow> error + 's" where
  "reduce f [] acc = Inr acc"
| "reduce f (x # xs) acc = (case f acc x of Inl err \<Rightarrow> Inl err | Inr acc' \<Rightarrow> reduce f xs acc')"

text \<open>\<^verbatim>\<open>x ?? {}\<close>\<close>

fun or_empty_object :: "'v object ref \<Rightarrow> 'v object" where
  "or_empty_object (Obj obj) = obj"
| "or_empty_object r = []"

text \<open>
  The value of \<^verbatim>\<open>queryBuilder\<close> after both reductions, with the console, or the error
  thrown on the way.
\<close>

definition getGuidelines_queryBuilder ::
  "scope \<Rightarrow> FilterValue object ref \<Rightarrow> error + QueryBuilder \<times> string list" where
  "getGuidelines_queryBuilder sc sqlFilter =
     (if \<not> getOwnPropertyNames_bound sc
      then Inl (ReferenceError ''getOwnPropertyNames is not defined'')
      else
        (case reduce (where_step sc (or_empty_object sqlFilter))
                (own_property_names (or_empty_object sqlFilter)) (queryBuilder_init, []) of
           Inl err \<Rightarrow> Inl err
         | Inr st \<Rightarrow>
             (case order_binding sc of
                None \<Rightarrow> Inl (ReferenceError ''order is not defined'')
              | Some order \<Rightarrow>
                  reduce (order_step sc (or_empty_object order))
                    (own_property_names (or_empty_object order)) st)))"

text \<open>
  \<^verbatim>\<open>getGuidelines(filter, sqlFilter)\<close> up to the call of the database: an exception in
  the executor rejects the returned promise with the error; otherwise the where clauses,
  the order clauses and the values are handed to \<^verbatim>\<open>pool.query\<close>.
\<close>

datatype executor_outcome =
    Rejects error
  | Queries "whereClause list" "string list" "FilterValue optional list"

definition getGuidelines :: "scope \<Rightarrow> FilterValue object ref \<Rightarrow> executor_outcome" where
  "getGuidelines sc sqlFilter =
     (case getGuidelines_queryBuilder sc sqlFilter of
        Inl err \<Rightarrow> Rejects err
      | Inr (queryBuilder, console) \<Rightarrow>
          Queries (whereClauses queryBuilder)
            (case orderClauses queryBuilder of Undefined \<Rightarrow> [] | Defined cs \<Rightarrow> cs)
            (queryValues queryBuilder))"

section \<open>Inputs of the evaluations below\<close>

text \<open>A guideline whose key lies between the two entries of the initial catalog.\<close>

definition create_water :: guideline where
  "create_water = GuidelineModel ''Create water'' ''Creo'' ''Aquam'' (LNum (Fin 5)) Undefined"

text \<open>The first entry of the initial catalog with another description.\<close>

definition create_animal_revised :: guideline where
  "create_animal_revised =
     GuidelineModel ''Create an animal'' ''Creo'' ''Animal'' (LNum (Fin 20))
       (Defined ''Create a mundane beast'')"

text \<open>The filter \<^verbatim>\<open>{category1: "Animal", level: null}\<close>.\<close>

definition animal_filter :: "FilterValue object" where
  "animal_filter = [(''category1'', FString ''Animal''), (''level'', FNull)]"

text \<open>The filter \<^verbatim>\<open>{form: "Animal", technique: "Creo"}\<close>.\<close>

definition creo_animal_filter :: "FilterValue object" where
  "creo_animal_filter = [(''form'', FString ''Animal''), (''technique'', FString ''Creo'')]"

text \<open>The filter \<^verbatim>\<open>{form: "Animal", colour: "red"}\<close>, with a field that is no column.\<close>

definition colour_filter :: "FilterValue object" where
  "colour_filter = [(''form'', FString ''Animal''), (''colour'', FString ''red'')]"

text \<open>
  A scope other than the module's, in which all three identifiers have a binding and
  \<^verbatim>\<open>field\<close> holds a text that the pattern accepts.
\<close>

definition bound_scope :: scope where
  "bound_scope =
     \<lparr>getOwnPropertyNames_bound = True, field_binding = Some ''g.form'',
      order_binding = Some RUndefined\<rparr>"

section \<open>The field comparators on levels\<close>

lemma compareLevel_finite:
  "compareLevel (Defined (LNum (Fin a))) (Defined (LNum (Fin b)))
     = (if a \<le> b then Some 0 else Some 1)"
  by (auto simp add: compareLevel_def level_lt_def)

lemma compareLevel_sentinel_left:
  "compareLevel (Defined LNull) (Defined (LNum (Fin b)))
     = (if 0 < b then Some 0 else Some (- 1))"
  by (simp add: compareLevel_def level_lt_def)

lemma compareLevel_sentinel_right:
  "compareLevel (Defined (LNum (Fin a))) (Defined LNull)
     = (if a < 0 then Some 0 else Some 1)"
  by (simp add: compareLevel_def level_lt_def)

lemma compareLevel_sentinels: "compareLevel (Defined LNull) (Defined LNull) = Some 0"
  by (simp add: compareLevel_def)

lemma compareLevel_not_finite:
  "compareLevel (Defined (LNum PosInf)) (Defined (LNum (Fin 2))) = Some 1"
  "compareLevel (Defined (LNum NaN)) (Defined LNull) = Some 1"
  "compareLevel Undefined (Defined LNull) = Some 1"
  "compareLevel (Defined (LNum NaN)) (Defined (LNum (Fin 2))) = None"
  by (simp_all add: compareLevel_def level_lt_def)

text \<open>
  C2. The level comparator should put the sentinel \<^verbatim>\<open>null\<close> before every concrete level
  and order concrete levels ascending. The code answers 0, equal, whenever
  \<^verbatim>\<open>compared < comparee\<close> holds: level 2 against level 5 is equal, and so is the
  sentinel against level 5, since \<^verbatim>\<open>null < 5\<close> holds.
\<close>

theorem compareLevel_smaller_is_equal:
  "compareLevel (Defined (LNum (Fin 2))) (Defined (LNum (Fin 5))) = Some 0 \<and>
   compareLevel (Defined LNull) (Defined (LNum (Fin 5))) = Some 0 \<and>
   compareLevel (Defined (LNum (Fin 5))) (Defined (LNum (Fin 2))) = Some 1"
  by (simp add: compareLevel_finite compareLevel_sentinel_left)

section \<open>The key comparators\<close>

text \<open>
  C10. When either operand is \<^verbatim>\<open>null\<close> or \<^verbatim>\<open>undefined\<close>, the full-key comparator and
  the partial-key comparator both return \<^verbatim>\<open>undefined\<close>: neither equal nor an order.
\<close>

theorem nullish_operand_incomparable:
  "loosely_null compared \<or> loosely_null comparee \<Longrightarrow>
     compareGuideline compared comparee = None \<and>
     compareGuidelineKeys compared comparee = None"
  by (simp add: compareGuideline_def compareGuidelineKeys_def)

theorem nullish_operand_incomparable_witness:
  "loosely_null (RNull :: guideline ref) \<and>
   compareGuideline RNull (Obj create_animal) = None \<and>
   compareGuidelineKeys RNull (Obj create_animal) = None \<and>
   compareGuideline (Obj create_animal) RUndefined = None \<and>
   compareGuidelineKeys (Obj create_animal) RUndefined = None"
  using nullish_operand_incomparable [of RNull "Obj create_animal"]
    nullish_operand_incomparable [of "Obj create_animal" RUndefined]
  by simp

lemma compareGuidelineKeys_undefined: "compareGuidelineKeys seeked RUndefined = None"
  by (simp add: compareGuidelineKeys_def)

text \<open>
  On two objects that carry all four key fields, as every \<^verbatim>\<open>GuidelineModel\<close> does, the
  partial-key comparator is the full-key comparator.
\<close>

lemma compareIgnoreUndefined_defined:
  "compareIgnoreUndefined compare (Defined x) (Defined y) = compare (Defined x) (Defined y)"
  by (simp add: compareIgnoreUndefined_def)

lemma compareGuidelineKeys_full_keys:
  "compareGuidelineKeys (Obj (GuidelineModel n t f l d)) (Obj (GuidelineModel n' t' f' l' d'))
     = compareGuideline (Obj (GuidelineModel n t f l d)) (Obj (GuidelineModel n' t' f' l' d'))"
  by (simp add: compareGuidelineKeys_def compareGuideline_def GuidelineModel_def
        compareIgnoreUndefined_defined Let_def)

lemmas comparator_defs =
  compareGuideline_def compareGuidelineKeys_def compareIgnoreUndefined_def artComparison_def
  compareLevel_def compareName_def string_strict_eq_def level_lt_def GuidelineModel_def

lemmas example_defs =
  create_animal_def destroy_effect_def create_water_def create_animal_revised_def

lemma guidelines_init_sorted: "sorted_by compareGuideline guidelines_init"
  by (simp add: guidelines_init_def example_defs comparator_defs)

lemma guidelines_init_probe: "guidelines_init ! (length guidelines_init div 2) = destroy_effect"
  by (simp add: guidelines_init_def)

lemma guidelines_init_length: "int (length guidelines_init) = 2"
  by (simp add: guidelines_init_def)

lemma guidelines_init_nonempty: "guidelines_init \<noteq> []"
  by (simp add: guidelines_init_def)

lemma create_water_between:
  "compareGuideline (Obj create_animal) (Obj destroy_effect) = Some (- 1)"
  "compareGuideline (Obj create_animal) (Obj create_water) = Some (- 1)"
  "compareGuideline (Obj create_water) (Obj destroy_effect) = Some (- 1)"
  "compareGuideline (Obj create_water) (Obj create_animal) = Some 1"
  by (simp_all add: example_defs comparator_defs)

lemma probe_comparisons:
  "compareGuidelineKeys (Obj create_water) (Obj destroy_effect) = Some (- 1)"
  "compareGuidelineKeys (Obj create_animal) (Obj destroy_effect) = Some (- 1)"
  "compareGuidelineKeys (Obj destroy_effect) (Obj destroy_effect) = Some 0"
  by (simp_all add: example_defs comparator_defs)

section \<open>The loop of the binary search\<close>

lemma search_loop_exit:
  "\<not> (index_lt s e \<and> cmp = 0) \<Longrightarrow>
     search_loop comparator collection seeked i s e cmp = Some (Inr (s, cmp))"
  by (subst search_loop.simps) auto

lemma search_loop_incomparable:
  "index_lt s e \<Longrightarrow> comparator seeked (element collection i) = None \<Longrightarrow>
     search_loop comparator collection seeked i s e 0
       = Some (Inl (TypeError ''Incompatible seeked value''))"
  by (subst search_loop.simps) simp

lemma search_loop_less:
  "index_lt s e \<Longrightarrow> comparator seeked (element collection i) = Some c \<Longrightarrow> c < 0 \<Longrightarrow>
     search_loop comparator collection seeked i s e 0 = Some (Inr (s, c))"
  by (subst search_loop.simps) (simp add: search_loop_exit)

lemma search_loop_greater:
  "index_lt s e \<Longrightarrow> comparator seeked (element collection i) = Some c \<Longrightarrow> 0 < c \<Longrightarrow>
     search_loop comparator collection seeked i s e 0 = Some (Inr (index_plus i 1, c))"
  by (subst search_loop.simps) (simp add: search_loop_exit)

text \<open>
  When the probed element compares equal, the body changes nothing and the loop
  condition still holds: the loop does not end.
\<close>

lemma search_loop_equal_diverges:
  assumes "index_lt s e" and "comparator seeked (element collection i) = Some 0"
  shows "search_loop comparator collection seeked i s e 0 = None"
proof (rule ccontr)
  assume "search_loop comparator collection seeked i s e 0 \<noteq> None"
  then obtain r where r: "search_loop comparator collection seeked i s e 0 = Some r"
    by auto
  have "\<not> (index_lt s e \<and> comparator seeked (element collection i) = Some 0 \<and> (0::int) = 0)"
    by (rule search_loop.raw_induct
          [where P = "\<lambda>cmpf coll sk i s e c r.
             \<not> (index_lt s e \<and> cmpf sk (element coll i) = Some 0 \<and> c = 0)", OF _ r])
       (auto split: if_splits option.splits, blast)
  with assms show False by simp
qed

section \<open>The search over the whole sequence\<close>

text \<open>
  \<^verbatim>\<open>addGuideline\<close> searches the window from 0 to the length. The search probes the
  middle element once and answers from that one comparison.
\<close>

lemma binarySearch_whole_empty:
  "binarySearch [] seeked 0 (Some 0) comparator = Some (Inr (Idx 0))"
  by (simp add: binarySearch_def lenght_def Let_def search_loop_exit)

lemma binarySearch_whole:
  "binarySearch collection seeked 0 (Some (int (length collection))) comparator =
     (case search_loop comparator collection seeked (Idx (int (length collection) div 2))
             (Idx 0) (Idx (int (length collection))) 0 of
        None \<Rightarrow> None
      | Some (Inl err) \<Rightarrow> Some (Inl err)
      | Some (Inr (s', cmp)) \<Rightarrow>
          Some (Inr (if cmp = 0 then Idx (int (length collection) div 2)
                     else index_minus (- 1) s')))"
  by (simp add: binarySearch_def lenght_def Let_def)

lemma probe_whole:
  assumes "collection \<noteq> []"
  shows "element collection (Idx (int (length collection) div 2))
           = Obj (collection ! (length collection div 2))"
proof -
  have eq: "int (length collection) div 2 = int (length collection div 2)"
    by (simp add: zdiv_int)
  from assms have "length collection div 2 < length collection"
    by simp
  then show ?thesis
    by (simp add: eq)
qed

lemma window_whole: "collection \<noteq> [] \<Longrightarrow> index_lt (Idx 0) (Idx (int (length collection)))"
  by simp

lemma binarySearch_whole_incomparable:
  assumes "collection \<noteq> []"
    and "comparator seeked (Obj (collection ! (length collection div 2))) = None"
  shows "binarySearch collection seeked 0 (Some (int (length collection))) comparator
           = Some (Inl (TypeError ''Incompatible seeked value''))"
proof -
  have "search_loop comparator collection seeked (Idx (int (length collection) div 2))
          (Idx 0) (Idx (int (length collection))) 0
          = Some (Inl (TypeError ''Incompatible seeked value''))"
    by (rule search_loop_incomparable [OF window_whole [OF assms(1)] _])
       (simp only: probe_whole [OF assms(1)] assms(2))
  then show ?thesis
    by (simp only: binarySearch_whole option.case sum.case)
qed

lemma binarySearch_whole_less:
  assumes "collection \<noteq> []"
    and "comparator seeked (Obj (collection ! (length collection div 2))) = Some c" and "c < 0"
  shows "binarySearch collection seeked 0 (Some (int (length collection))) comparator
           = Some (Inr (Idx (- 1)))"
proof -
  have "search_loop comparator collection seeked (Idx (int (length collection) div 2))
          (Idx 0) (Idx (int (length collection))) 0 = Some (Inr (Idx 0, c))"
    by (rule search_loop_less [OF window_whole [OF assms(1)] _ assms(3)])
       (simp only: probe_whole [OF assms(1)] assms(2))
  then show ?thesis
    using \<open>c < 0\<close> by (simp add: binarySearch_whole)
qed

lemma binarySearch_whole_greater:
  assumes "collection \<noteq> []"
    and "comparator seeked (Obj (collection ! (length collection div 2))) = Some c" and "0 < c"
  shows "binarySearch collection seeked 0 (Some (int (length collection))) comparator
           = Some (Inr (Idx (- 2 - int (length collection) div 2)))"
proof -
  have "search_loop comparator collection seeked (Idx (int (length collection) div 2))
          (Idx 0) (Idx (int (length collection))) 0
          = Some (Inr (index_plus (Idx (int (length collection) div 2)) 1, c))"
    by (rule search_loop_greater [OF window_whole [OF assms(1)] _ assms(3)])
       (simp only: probe_whole [OF assms(1)] assms(2))
  then show ?thesis
    using \<open>0 < c\<close> by (simp add: binarySearch_whole)
qed

lemma binarySearch_whole_equal:
  assumes "collection \<noteq> []"
    and "comparator seeked (Obj (collection ! (length collection div 2))) = Some 0"
  shows "binarySearch collection seeked 0 (Some (int (length collection))) comparator = None"
proof -
  have "search_loop comparator collection seeked (Idx (int (length collection) div 2))
          (Idx 0) (Idx (int (length collection))) 0 = None"
    by (rule search_loop_equal_diverges [OF window_whole [OF assms(1)] _])
       (simp only: probe_whole [OF assms(1)] assms(2))
  then show ?thesis
    by (simp only: binarySearch_whole option.case)
qed

text \<open>On a sequence that is not empty the search never answers with a position.\<close>

lemma binarySearch_whole_never_found:
  assumes "collection \<noteq> []" and "0 \<le> n"
  shows "binarySearch collection seeked 0 (Some (int (length collection))) comparator
           \<noteq> Some (Inr (Idx n))"
proof (cases "comparator seeked (Obj (collection ! (length collection div 2)))")
  case None
  show ?thesis
    by (simp add: binarySearch_whole_incomparable
          [where comparator = comparator and seeked = seeked, OF assms(1) None])
next
  case (Some c)
  consider "c < 0" | "c = 0" | "0 < c"
    by linarith
  then show ?thesis
  proof cases
    case 1
    show ?thesis
      using assms(2)
      by (simp add: binarySearch_whole_less
            [where comparator = comparator and seeked = seeked, OF assms(1) Some 1])
  next
    case 2
    with Some have "comparator seeked (Obj (collection ! (length collection div 2))) = Some 0"
      by simp
    then show ?thesis
      by (simp add: binarySearch_whole_equal
            [where comparator = comparator and seeked = seeked, OF assms(1)])
  next
    case 3
    have "0 \<le> int (length collection) div 2"
      by simp
    then show ?thesis
      using assms(2)
      by (simp add: binarySearch_whole_greater
            [where comparator = comparator and seeked = seeked, OF assms(1) Some 3])
  qed
qed

lemma search_initial_catalog:
  "binarySearch guidelines_init (Obj create_water) 0 (Some (int (length guidelines_init)))
     compareGuidelineKeys = Some (Inr (Idx (- 1)))"
  "binarySearch guidelines_init (Obj create_animal) 0 (Some (int (length guidelines_init)))
     compareGuidelineKeys = Some (Inr (Idx (- 1)))"
  "binarySearch guidelines_init (Obj destroy_effect) 0 (Some (int (length guidelines_init)))
     compareGuidelineKeys = None"
  by (simp_all add: binarySearch_whole_less [where c = "- 1"] binarySearch_whole_equal
        guidelines_init_nonempty guidelines_init_probe probe_comparisons)

section \<open>The search with an undefined end\<close>

text \<open>
  \<^verbatim>\<open>updateGuideline\<close> leaves the end of the window \<^verbatim>\<open>undefined\<close>. The probe position is
  then NaN and the probed element \<^verbatim>\<open>undefined\<close>.
\<close>

lemma binarySearch_open_empty:
  "binarySearch [] seeked 0 None comparator = Some (Inr NaNi)"
  by (simp add: binarySearch_def lenght_def Let_def search_loop_exit)

lemma binarySearch_open_nonempty:
  assumes "collection \<noteq> []" and "comparator seeked RUndefined = None"
  shows "binarySearch collection seeked 0 None comparator
           = Some (Inl (TypeError ''Incompatible seeked value''))"
  using assms
  by (simp add: binarySearch_def lenght_def Let_def search_loop_incomparable)

lemma updateGuideline_never_replaces:
  "updateGuideline key guideline guidelines =
     Some (Rejected (if guidelines = [] then NotFoundException ''The guideline does not exist''
                     else TypeError ''Incompatible seeked value''), guidelines)"
  by (simp add: updateGuideline_def binarySearch_open_empty binarySearch_open_nonempty
        compareGuidelineKeys_undefined)

section \<open>The catalog operations on the initial catalog\<close>

text \<open>On the empty catalog the search answers 0, and every insert is refused as a duplicate.\<close>

lemma addGuideline_empty:
  "addGuideline guideline []
     = Some (Rejected (RangeError ''The guideline already exists''), [])"
  by (simp add: addGuideline_def binarySearch_whole_empty)

text \<open>
  C1. Inserts of distinct keys should leave the catalog sorted by the key comparator.
  The initial catalog is sorted, and the key of \<open>create_water\<close> differs from both of
  its keys; \<^verbatim>\<open>addGuideline\<close> resolves and puts the new entry in front of
  \<open>create_animal\<close>, which compares less than it.
\<close>

theorem addGuideline_breaks_order:
  "sorted_by compareGuideline guidelines_init \<and>
   compareGuideline (Obj create_water) (Obj create_animal) = Some 1 \<and>
   compareGuideline (Obj create_water) (Obj destroy_effect) = Some (- 1) \<and>
   addGuideline create_water guidelines_init
     = Some (Resolved (guidelineKey create_water), [create_water, create_animal, destroy_effect]) \<and>
   \<not> sorted_by compareGuideline [create_water, create_animal, destroy_effect]"
proof -
  have "addGuideline create_water guidelines_init
          = Some (Resolved (guidelineKey create_water), create_water # guidelines_init)"
    by (simp add: addGuideline_def search_initial_catalog splice_insert_def splice_start_def)
  moreover have "\<not> sorted_by compareGuideline [create_water, create_animal, destroy_effect]"
    by (simp add: create_water_between)
  ultimately show ?thesis
    by (simp add: guidelines_init_sorted create_water_between guidelines_init_def)
qed

text \<open>
  C3. The search for the key of an entry of the sorted catalog should return the position
  of that entry. In the initial catalog the search for the first entry returns \<open>-1\<close>,
  "not found, insert at 0", and the search for the second entry does not return.
\<close>

theorem binarySearch_misses_present_key:
  "sorted_by compareGuideline guidelines_init \<and>
   guidelines_init ! 0 = create_animal \<and>
   binarySearch guidelines_init (Obj create_animal) 0 (Some (int (length guidelines_init)))
     compareGuidelineKeys = Some (Inr (Idx (- 1))) \<and>
   guidelines_init ! 1 = destroy_effect \<and>
   binarySearch guidelines_init (Obj destroy_effect) 0 (Some (int (length guidelines_init)))
     compareGuidelineKeys = None"
  by (simp add: guidelines_init_sorted search_initial_catalog)
     (simp add: guidelines_init_def)

text \<open>
  C4. The search for an absent key should return \<open>-(j)-1\<close> for the position \<open>j\<close> that
  keeps the order. The key of \<open>create_water\<close> belongs at position 1 of the initial
  catalog, between its two entries; the search returns \<open>-1\<close>, position 0. On the empty
  catalog the search returns 0, "found at 0".
\<close>

theorem binarySearch_wrong_insertion_point:
  "sorted_by compareGuideline [create_animal, create_water, destroy_effect] \<and>
   \<not> sorted_by compareGuideline [create_water, create_animal, destroy_effect] \<and>
   binarySearch guidelines_init (Obj create_water) 0 (Some (int (length guidelines_init)))
     compareGuidelineKeys = Some (Inr (Idx (- 1))) \<and>
   binarySearch [] (Obj create_water) 0 (Some (int (length ([] :: guideline list))))
     compareGuidelineKeys = Some (Inr (Idx 0))"
  by (simp add: search_initial_catalog create_water_between binarySearch_whole_empty)

text \<open>
  C5. An insert whose key equals a key of the catalog should fail with the duplicate
  error and leave the catalog as it was. Adding \<open>create_animal\<close> again resolves and
  stores a second copy; adding \<open>destroy_effect\<close> again does not return.
\<close>

theorem addGuideline_accepts_duplicate:
  "compareGuideline (Obj create_animal) (Obj (guidelines_init ! 0)) = Some 0 \<and>
   addGuideline create_animal guidelines_init
     = Some (Resolved (guidelineKey create_animal), [create_animal, create_animal, destroy_effect]) \<and>
   compareGuideline (Obj destroy_effect) (Obj (guidelines_init ! 1)) = Some 0 \<and>
   addGuideline destroy_effect guidelines_init = None"
proof -
  have "addGuideline create_animal guidelines_init
          = Some (Resolved (guidelineKey create_animal), create_animal # guidelines_init)"
    by (simp add: addGuideline_def search_initial_catalog splice_insert_def splice_start_def)
  moreover have "addGuideline destroy_effect guidelines_init = None"
    by (simp add: addGuideline_def search_initial_catalog)
  moreover have "compareGuideline (Obj create_animal) (Obj create_animal) = Some 0"
    and "compareGuideline (Obj destroy_effect) (Obj destroy_effect) = Some 0"
    by (simp_all add: example_defs comparator_defs)
  ultimately show ?thesis
    by (simp add: guidelines_init_def)
qed

text \<open>
  C6. \<^verbatim>\<open>updateGuideline\<close> should replace the entry with the given key and return the
  previous entry. For the key of the first entry of the initial catalog the promise is
  rejected with the TypeError of the search, and the catalog keeps the old entry.
\<close>

theorem updateGuideline_rejects_present_key:
  "compareGuideline (Obj (guidelineKey create_animal)) (Obj (guidelines_init ! 0)) = Some 0 \<and>
   updateGuideline (guidelineKey create_animal) create_animal_revised guidelines_init
     = Some (Rejected (TypeError ''Incompatible seeked value''), guidelines_init)"
proof -
  have "compareGuideline (Obj (guidelineKey create_animal)) (Obj create_animal) = Some 0"
    by (simp add: guidelineKey_def example_defs comparator_defs)
  then show ?thesis
    by (simp add: updateGuideline_never_replaces guidelines_init_nonempty)
       (simp add: guidelines_init_def)
qed

section \<open>The query builder\<close>

text \<open>In the module as written every call ends at the first unbound identifier.\<close>

lemma getGuidelines_module_scope:
  "getGuidelines module_scope sqlFilter
     = Rejects (ReferenceError ''getOwnPropertyNames is not defined'')"
  by (simp add: getGuidelines_def getGuidelines_queryBuilder_def module_scope_def)

lemma validFieldName_module_scope:
  "validFieldName module_scope fieldName = Inl (ReferenceError ''field is not defined'')"
  by (simp add: validFieldName_def module_scope_def)

text \<open>
  With all three identifiers bound, the equality clauses embed \<^verbatim>\<open>$undefined\<close>, the
  IS NULL clause names the value of \<^verbatim>\<open>field\<close>, and one text decides for every field
  whether it is valid.
\<close>

lemma field_pattern_examples:
  "\<not> field_pattern ''form''" "\<not> field_pattern ''level''" "field_pattern ''g.form''"
  by (simp_all add: field_pattern_def identifier_pattern_def is_lower_def is_digit_def
        is_word_def)

lemma getGuidelines_bound_scope:
  "getGuidelines bound_scope (Obj animal_filter)
     = Queries [Equals ''category1'' PlaceholderUndefined, IsNull ''g.form''] []
         [Defined (FString ''Animal'')]"
  "getGuidelines bound_scope (Obj creo_animal_filter)
     = Queries [Equals ''form'' PlaceholderUndefined, Equals ''technique'' PlaceholderUndefined] []
         [Defined (FString ''Animal''), Defined (FString ''Creo'')]"
  "getGuidelines bound_scope (Obj colour_filter)
     = Queries [Equals ''form'' PlaceholderUndefined, Equals ''colour'' PlaceholderUndefined] []
         [Defined (FString ''Animal''), Defined (FString ''red'')]"
  by (simp_all add: getGuidelines_def getGuidelines_queryBuilder_def bound_scope_def
        animal_filter_def creo_animal_filter_def colour_filter_def own_property_names_def
        where_step_def validFieldName_def field_pattern_examples property_def
        has_placeholder_def queryBuilder_init_def object_prototype_properties_def Let_def)

text \<open>
  C7. Compiling \<^verbatim>\<open>{category1: "Animal", level: null}\<close> should give an equality clause,
  an IS NULL clause and one bound value. The call is rejected with a ReferenceError
  before any clause is built.
\<close>

theorem getGuidelines_null_filter_rejected:
  "getGuidelines module_scope (Obj animal_filter)
     = Rejects (ReferenceError ''getOwnPropertyNames is not defined'')"
  by (simp add: getGuidelines_module_scope)

text \<open>
  C8. Every literal field should get one placeholder, numbered from 1 in the order of the
  bound values. For \<^verbatim>\<open>{form: "Animal", technique: "Creo"}\<close> the call is rejected with a
  ReferenceError, and the callback of the reduction builds no clause: its first step
  throws as well.
\<close>

theorem getGuidelines_placeholders_rejected:
  "getGuidelines module_scope (Obj creo_animal_filter)
     = Rejects (ReferenceError ''getOwnPropertyNames is not defined'') \<and>
   where_step module_scope creo_animal_filter (queryBuilder_init, []) ''form''
     = Inl (ReferenceError ''field is not defined'')"
  by (simp add: getGuidelines_module_scope where_step_def validFieldName_module_scope)

text \<open>
  C9. A field outside the allow-list should be dropped and logged, and the rest should
  compile without an error. For \<^verbatim>\<open>{form: "Animal", colour: "red"}\<close> the call is
  rejected with a ReferenceError, and the validity test itself throws for both the
  filter callback and the order callback.
\<close>

theorem getGuidelines_unknown_field_rejected:
  "getGuidelines module_scope (Obj colour_filter)
     = Rejects (ReferenceError ''getOwnPropertyNames is not defined'') \<and>
   validFieldName module_scope ''colour'' = Inl (ReferenceError ''field is not defined'') \<and>
   where_step module_scope colour_filter (queryBuilder_init, []) ''colour''
     = Inl (ReferenceError ''field is not defined'') \<and>
   order_step module_scope [(''colour'', ODirection ''ASC'')] (queryBuilder_init, []) ''colour''
     = Inl (ReferenceError ''field is not defined'')"
  by (simp add: getGuidelines_module_scope where_step_def order_step_def
        validFieldName_module_scope)

end
